theory Spec2Isabelle
  imports Complex_Main
begin

section \<open>Values of the program\<close>

text \<open>
  The program is \<^verbatim>\<open>server.js\<close>: a price scanner over several exchange clients
  (\<^verbatim>\<open>fetchPrice\<close>, \<^verbatim>\<open>scanPair\<close>), a detection loop (\<^verbatim>\<open>mainLoop\<close>) and a
  manually triggered execution sequence (\<^verbatim>\<open>executeArbitrage\<close>).

  Numbers. A price is a finite number, modelled as a rational, and sums and differences
  of prices are taken exactly. Division is the one operation of the program that leaves
  the finite numbers (a payload may carry a zero ask), so its result is a \<open>jsnum\<close>:
  a finite value, one of the two infinities, or NaN. A zero is the positive zero.
  The functions of the program are modelled without the rounding to binary64; the sign
  of a difference of two prices, which is all the sort comparators use, is the same with
  and without it. The section on doubles below adds the rounding, for the spread.
\<close>

datatype jsnum = Fin rat | Infinity | NegInfinity | NaN

definition js_div :: "rat \<Rightarrow> rat \<Rightarrow> jsnum" where
  "js_div a b =
     (if b \<noteq> 0 then Fin (a / b)
      else if 0 < a then Infinity
      else if a < 0 then NegInfinity
      else NaN)"

text \<open>\<^verbatim>\<open>x < y\<close> and \<^verbatim>\<open>x >= y\<close> with a finite right-hand side; both are false on NaN.\<close>

fun js_lt :: "jsnum \<Rightarrow> rat \<Rightarrow> bool" where
  "js_lt (Fin x) y = (x < y)"
| "js_lt Infinity y = False"
| "js_lt NegInfinity y = True"
| "js_lt NaN y = False"

fun js_ge :: "jsnum \<Rightarrow> rat \<Rightarrow> bool" where
  "js_ge (Fin x) y = (y \<le> x)"
| "js_ge Infinity y = True"
| "js_ge NegInfinity y = False"
| "js_ge NaN y = False"

text \<open>
  A thrown value is an error object with its message. \<^verbatim>\<open>err.message || err\<close> is the
  message when it is a non-empty string and the error object itself otherwise.
\<close>

datatype js_error = JsError (message: string)

datatype err_value = ErrMessage string | ErrObject js_error

definition message_or_err :: "js_error \<Rightarrow> err_value" where
  "message_or_err err = (if message err \<noteq> [] then ErrMessage (message err) else ErrObject err)"

text \<open>
  A computation that may throw returns \<open>Inl err\<close> for the throw and \<open>Inr v\<close> for
  a normal return. \<^verbatim>\<open>try { body } catch (err) { handler }\<close>:
\<close>

definition try_catch :: "js_error + 'a \<Rightarrow> (js_error \<Rightarrow> js_error + 'a) \<Rightarrow> js_error + 'a" where
  "try_catch body handler = (case body of Inl err \<Rightarrow> handler err | Inr v \<Rightarrow> Inr v)"

text \<open>
  The values a property of an object can have. A reference is to the table
  \<^verbatim>\<open>withdrawAddresses\<close>, to the entry of the table under an exchange id, or to an
  object of the runtime (a built-in function or prototype), by name. \<open>truthy\<close> is the
  test that \<^verbatim>\<open>&&\<close> and \<^verbatim>\<open>!\<close> apply.
\<close>

datatype ref = AddressBook | Entries string | Builtin string

datatype js_value = Undefined | Null | Bool bool | Num jsnum | Str string | Ref ref

fun truthy :: "js_value \<Rightarrow> bool" where
  "truthy Undefined = False"
| "truthy Null = False"
| "truthy (Bool b) = b"
| "truthy (Num (Fin x)) = (x \<noteq> 0)"
| "truthy (Num Infinity) = True"
| "truthy (Num NegInfinity) = True"
| "truthy (Num NaN) = False"
| "truthy (Str s) = (s \<noteq> [])"
| "truthy (Ref r) = True"

section \<open>Exchange clients\<close>

text \<open>
  What a ticker call returns: the three fields \<^verbatim>\<open>fetchPrice\<close> reads, each a number
  or undefined (\<open>None\<close>). \<^verbatim>\<open>fetchPrice\<close> returns an object of the same three fields.
\<close>

record ticker =
  bid :: "rat option"
  ask :: "rat option"
  last_field :: "rat option"

text \<open>
  An exchange client (a ccxt instance) as the program uses it: the capability table
  \<^verbatim>\<open>has\<close> (\<open>None\<close> when the object has no such property; \<open>h k\<close> is the truthiness
  of \<^verbatim>\<open>has[k]\<close>) and the three remote calls, each of which returns or throws. The
  third argument of \<^verbatim>\<open>withdraw\<close> is whatever value the address lookup has produced.
\<close>

type_synonym order = string
type_synonym tx = string

record adapter =
  has :: "(string \<Rightarrow> bool) option"
  fetchTicker :: "string \<Rightarrow> js_error + ticker"
  createMarketOrder :: "string \<Rightarrow> string \<Rightarrow> jsnum \<Rightarrow> js_error + order"
  withdraw :: "string \<Rightarrow> jsnum \<Rightarrow> js_value \<Rightarrow> js_error + tx"

text \<open>
  The object \<^verbatim>\<open>exchanges\<close>: client by exchange id, in insertion order.
  \<^verbatim>\<open>Object.keys(exchanges)\<close> lists the ids in that order, \<^verbatim>\<open>exchanges[id]\<close> is the
  lookup, undefined (\<open>None\<close>) for an id that is not a key.
\<close>

type_synonym exchanges = "(string \<times> adapter) list"

definition Object_keys :: "exchanges \<Rightarrow> string list" where
  "Object_keys exchanges = map fst exchanges"

section \<open>Constants\<close>

definition PAIRS :: "string list" where
  "PAIRS = [''BTC/USDT'', ''ETH/USDT'', ''XRP/USDT'', ''BCH/USDT'', ''LTC/USDT'']"

definition MIN_ARBITRAGE_SPREAD :: rat where
  "MIN_ARBITRAGE_SPREAD = 2 / 1000"

definition TRADE_AMOUNT_USDT :: rat where
  "TRADE_AMOUNT_USDT = 10"

section \<open>fetchPrice\<close>

definition fetchPrice :: "adapter option \<Rightarrow> string \<Rightarrow> js_error + ticker option" where
  "fetchPrice exchange pair =
     try_catch
       (case exchange of
          None \<Rightarrow> Inr None
        | Some ex \<Rightarrow>
            (case has ex of
               None \<Rightarrow> Inr None
             | Some h \<Rightarrow>
                 if \<not> h ''fetchTicker'' then Inr None
                 else (case fetchTicker ex pair of
                         Inl err \<Rightarrow> Inl err
                       | Inr t \<Rightarrow>
                           Inr (Some \<lparr>bid = bid t, ask = ask t, last_field = last_field t\<rparr>))))
       (\<lambda>err. Inr None)"

section \<open>scanPair\<close>

record quote =
  exchange :: string
  bid :: rat
  ask :: rat

text \<open>
  \<^verbatim>\<open>price && price.bid && price.ask\<close>: the price object is there and both fields are
  truthy, that is, numbers other than zero. The quote pushed carries the two numbers.
\<close>

definition valid_quote :: "string \<Rightarrow> ticker option \<Rightarrow> quote option" where
  "valid_quote ex_id price =
     (case price of
        None \<Rightarrow> None
      | Some p \<Rightarrow>
          (case (ticker.bid p, ticker.ask p) of
             (Some b, Some a) \<Rightarrow>
               if b \<noteq> 0 \<and> a \<noteq> 0 then Some \<lparr>exchange = ex_id, bid = b, ask = a\<rparr> else None
           | _ \<Rightarrow> None))"

text \<open>
  The loop over \<^verbatim>\<open>Object.keys(exchanges)\<close>, with the array \<^verbatim>\<open>results\<close> as
  accumulator. Each iteration is its own \<^verbatim>\<open>try\<close>, whose handler skips the exchange.
\<close>

fun scanLoop :: "exchanges \<Rightarrow> string \<Rightarrow> string list \<Rightarrow> quote list \<Rightarrow> js_error + quote list" where
  "scanLoop exchanges pair [] results = Inr results"
| "scanLoop exchanges pair (ex_id # ids) results =
     (case try_catch
             (case fetchPrice (map_of exchanges ex_id) pair of
                Inl err \<Rightarrow> Inl err
              | Inr price \<Rightarrow>
                  (case valid_quote ex_id price of
                     Some q \<Rightarrow> Inr (results @ [q])
                   | None \<Rightarrow> Inr results))
             (\<lambda>err. Inr results) of
        Inl err \<Rightarrow> Inl err
      | Inr results' \<Rightarrow> scanLoop exchanges pair ids results')"

text \<open>
  \<^verbatim>\<open>Array.prototype.sort(comparefn)\<close>: a stable sort; \<open>a\<close> goes before \<open>b\<close> when
  \<open>comparefn a b < 0\<close>, after it when \<open>comparefn a b > 0\<close>, and elements that compare
  equal keep their order. Insertion from the right, before the first element that is
  not smaller, computes that order.
\<close>

fun js_insert :: "('a \<Rightarrow> 'a \<Rightarrow> rat) \<Rightarrow> 'a \<Rightarrow> 'a list \<Rightarrow> 'a list" where
  "js_insert comparefn x [] = [x]"
| "js_insert comparefn x (y # ys) =
     (if comparefn x y \<le> 0 then x # y # ys else y # js_insert comparefn x ys)"

definition js_sort :: "('a \<Rightarrow> 'a \<Rightarrow> rat) \<Rightarrow> 'a list \<Rightarrow> 'a list" where
  "js_sort comparefn xs = foldr (js_insert comparefn) xs []"

text \<open>
  The snapshot \<^verbatim>\<open>{ pair, bestBuy, bestSell, all }\<close> that \<^verbatim>\<open>scanPair\<close> returns and
  the opportunity \<^verbatim>\<open>{ timestamp, pair, bestBuy, bestSell, spread }\<close> share three
  fields, which is all \<^verbatim>\<open>executeArbitrage\<close> reads of its argument.
\<close>

record best_quotes =
  pair :: string
  bestBuy :: quote
  bestSell :: quote

record snapshot = best_quotes +
  all :: "quote list"

text \<open>
  The second sort works on the array the first one has reordered: \<^verbatim>\<open>sort\<close> sorts
  in place. \<^verbatim>\<open>results[0]\<close> is read only after the length check.
\<close>

definition scanPair :: "exchanges \<Rightarrow> string \<Rightarrow> js_error + snapshot option" where
  "scanPair exchanges p =
     (case scanLoop exchanges p (Object_keys exchanges) [] of
        Inl err \<Rightarrow> Inl err
      | Inr results \<Rightarrow>
          if length results < 2 then Inr None
          else
            (let results1 = js_sort (\<lambda>a b. ask a - ask b) results;
                 bestBuy = hd results1;
                 results2 = js_sort (\<lambda>a b. bid b - bid a) results1;
                 bestSell = hd results2
             in Inr (Some \<lparr>pair = p, bestBuy = bestBuy, bestSell = bestSell, all = results2\<rparr>)))"

section \<open>executeArbitrage\<close>

record opportunity = best_quotes +
  timestamp :: int
  spread :: jsnum

record exec_result =
  ok :: bool
  reason :: "string option"
  err :: "err_value option"
  note_text :: "string option"

text \<open>
  The lines sent with \<^verbatim>\<open>io.emit('log', ...)\<close>, one constructor for each template
  string, with the interpolated values as arguments.
\<close>

datatype log_line =
    Bought jsnum string string rat
  | NoDestinationAddress string string
  | WithdrawRequested string tx
  | WithdrawFailed err_value
  | WithdrawNotSupported string
  | WaitingForDeposit string

datatype event =
    Ticker string quote quote jsnum
  | OpportunityEvent opportunity
  | Log log_line

text \<open>
  What an execution does to the outside, in order: a call of \<^verbatim>\<open>createMarketOrder\<close>
  (exchange id, symbol, side, amount), a call of \<^verbatim>\<open>withdraw\<close> (exchange id, asset,
  amount, address), or an emitted event.
\<close>

datatype effect =
    CreateMarketOrder string string string jsnum
  | Withdraw string string jsnum js_value
  | Emit event

text \<open>
  \<^verbatim>\<open>withdrawAddresses\<close> is an object literal: its own properties are the entries the
  operator has written, an object of addresses by asset for each exchange id. The
  literal of the source has no entries; it is meant to be filled in, so the execution
  takes the entries as an argument.
\<close>

type_synonym address_book = "string \<rightharpoonup> (string \<rightharpoonup> string)"

definition withdrawAddresses :: address_book where
  "withdrawAddresses = Map.empty"

text \<open>
  Property access \<^verbatim>\<open>v[k]\<close>. An own property of the table or of one of its entries
  answers first. Every other access is answered by the runtime: a property the object
  inherits from its prototype (a plain object has \<^verbatim>\<open>constructor\<close>, \<^verbatim>\<open>toString\<close>
  and more), a property of a built-in object, undefined where there is none, or a throw
  from an accessor. \<^verbatim>\<open>__proto__\<close> is never an own property of a literal. The answers
  of the runtime are the argument \<open>inherited\<close>.
\<close>

type_synonym property_access = "js_value \<Rightarrow> string \<Rightarrow> js_error + js_value"

definition js_get :: "property_access \<Rightarrow> address_book \<Rightarrow> js_value \<Rightarrow> string \<Rightarrow> js_error + js_value" where
  "js_get inherited book v k =
     (if k = ''__proto__'' then inherited v k
      else
        (case v of
           Ref AddressBook \<Rightarrow>
             (case book k of
                Some entries \<Rightarrow> Inr (Ref (Entries k))
              | None \<Rightarrow> inherited v k)
         | Ref (Entries ex_id) \<Rightarrow>
             (case book ex_id of
                Some entries \<Rightarrow>
                  (case entries k of
                     Some address \<Rightarrow> Inr (Str address)
                   | None \<Rightarrow> inherited v k)
              | None \<Rightarrow> inherited v k)
         | _ \<Rightarrow> inherited v k))"

text \<open>
  \<^verbatim>\<open>withdrawAddresses && withdrawAddresses[ex] && withdrawAddresses[ex][asset]\<close>: the
  first operand that is not truthy, or else the last one.
\<close>

definition destinationAddress ::
  "property_access \<Rightarrow> address_book \<Rightarrow> string \<Rightarrow> string \<Rightarrow> js_error + js_value" where
  "destinationAddress inherited book ex_id asset =
     (if \<not> truthy (Ref AddressBook) then Inr (Ref AddressBook)
      else
        (case js_get inherited book (Ref AddressBook) ex_id of
           Inl e \<Rightarrow> Inl e
         | Inr entries \<Rightarrow>
             if \<not> truthy entries then Inr entries
             else js_get inherited book entries asset))"

text \<open>\<^verbatim>\<open>pair.split('/')[0]\<close>: the part of the string before its first slash.\<close>

definition base_asset :: "string \<Rightarrow> string" where
  "base_asset p = takeWhile (\<lambda>c. c \<noteq> CHR ''/'') p"

definition failure :: "string \<Rightarrow> exec_result" where
  "failure r = \<lparr>ok = False, reason = Some r, err = None, note_text = None\<rparr>"

definition failure_err :: "string \<Rightarrow> js_error \<Rightarrow> exec_result" where
  "failure_err r e = \<lparr>ok = False, reason = Some r, err = Some (message_or_err e), note_text = None\<rparr>"

text \<open>The note of the successful result; its dash is stored in the source file as the eight bytes below.\<close>

definition awaiting_deposit_note :: string where
  "awaiting_deposit_note =
     ''buy placed and withdraw requested '' @
     [CHR 0xC3, CHR 0xA2, CHR 0xE2, CHR 0x82, CHR 0xAC, CHR 0xE2, CHR 0x80, CHR 0x9D] @
     '' you must confirm deposit and then sell.''"

text \<open>
  The result and the effects of one execution. The spread check comes before the
  \<^verbatim>\<open>try\<close>; a throw of \<^verbatim>\<open>createMarketOrder\<close> or of the address lookup reaches
  the outer handler (\<^verbatim>\<open>order failed\<close>), a throw of \<^verbatim>\<open>withdraw\<close> the inner one.
\<close>

definition executeArbitrage ::
  "exchanges \<Rightarrow> property_access \<Rightarrow> address_book \<Rightarrow> opportunity \<Rightarrow> exec_result \<times> effect list" where
  "executeArbitrage exchanges inherited book opp =
     (let p = pair opp;
          buy = bestBuy opp;
          sell = bestSell opp;
          buyPrice = ask buy;
          sellPrice = bid sell;
          spread = js_div (sellPrice - buyPrice) buyPrice
      in
      if js_lt spread MIN_ARBITRAGE_SPREAD then (failure ''spread too low'', [])
      else
        (let baseAmount = js_div TRADE_AMOUNT_USDT buyPrice in
         case map_of exchanges (exchange buy) of
           None \<Rightarrow> (failure ''buy exchange cannot create orders via API'', [])
         | Some buyEx \<Rightarrow>
             (case has buyEx of
                None \<Rightarrow> (failure ''buy exchange cannot create orders via API'', [])
              | Some h \<Rightarrow>
                  if \<not> h ''createMarketOrder''
                  then (failure ''buy exchange cannot create orders via API'', [])
                  else
                    (let placed = [CreateMarketOrder (exchange buy) p ''buy'' baseAmount] in
                     case createMarketOrder buyEx p ''buy'' baseAmount of
                       Inl e \<Rightarrow> (failure_err ''order failed'' e, placed)
                     | Inr buyOrder \<Rightarrow>
                         (let asset = base_asset p;
                              bought = placed @ [Emit (Log (Bought baseAmount asset (exchange buy) buyPrice))]
                          in
                          case destinationAddress inherited book (exchange sell) asset of
                            Inl e \<Rightarrow> (failure_err ''order failed'' e, bought)
                          | Inr destination \<Rightarrow>
                              if \<not> truthy destination
                              then (failure ''no destination address'',
                                    bought @ [Emit (Log (NoDestinationAddress asset (exchange sell)))])
                              else if h ''withdraw''
                              then
                                (let requested =
                                       bought @ [Withdraw (exchange buy) asset baseAmount destination]
                                 in
                                 case withdraw buyEx asset baseAmount destination of
                                   Inl e \<Rightarrow>
                                     (failure_err ''withdraw failed'' e,
                                      requested @ [Emit (Log (WithdrawFailed (message_or_err e)))])
                                 | Inr t \<Rightarrow>
                                     (\<lparr>ok = True, reason = None, err = None,
                                       note_text = Some awaiting_deposit_note\<rparr>,
                                      requested @
                                      [Emit (Log (WithdrawRequested (exchange buy) t)),
                                       Emit (Log (WaitingForDeposit (exchange sell)))]))
                              else (failure ''withdraw not supported'',
                                    bought @ [Emit (Log (WithdrawNotSupported (exchange buy)))]))))))"

section \<open>mainLoop\<close>

text \<open>
  One pass of the \<^verbatim>\<open>for\<close> loop over the pairs, inside the \<^verbatim>\<open>try\<close> of one cycle.
  The state is the list of events emitted so far; \<open>now p\<close> is the reading of
  \<^verbatim>\<open>Date.now()\<close> while pair \<open>p\<close> is processed. A throw ends the pass, and the
  events emitted before it stay emitted. The test \<^verbatim>\<open>!buy || !sell\<close> is on two
  objects, which are truthy.
\<close>

fun forPairs ::
  "exchanges \<Rightarrow> (string \<Rightarrow> int) \<Rightarrow> string list \<Rightarrow> event list \<Rightarrow> js_error option \<times> event list" where
  "forPairs exchanges now [] emitted = (None, emitted)"
| "forPairs exchanges now (p # ps) emitted =
     (case scanPair exchanges p of
        Inl e \<Rightarrow> (Some e, emitted)
      | Inr None \<Rightarrow> forPairs exchanges now ps emitted
      | Inr (Some opp) \<Rightarrow>
          (let buy = bestBuy opp;
               sell = bestSell opp;
               spread = js_div (bid sell - ask buy) (ask buy);
               emitted1 = emitted @ [Ticker p buy sell spread]
           in
           if js_ge spread MIN_ARBITRAGE_SPREAD \<and> exchange buy \<noteq> exchange sell
           then forPairs exchanges now ps
                  (emitted1 @
                   [OpportunityEvent
                      \<lparr>pair = p, bestBuy = buy, bestSell = sell, timestamp = now p, spread = spread\<rparr>])
           else forPairs exchanges now ps emitted1))"

text \<open>
  One cycle of \<^verbatim>\<open>mainLoop\<close>: the pass over the pairs; the handler of the cycle
  writes the error it caught to the console (second component) and the cycle ends.
\<close>

definition mainLoop_cycle ::
  "exchanges \<Rightarrow> (string \<Rightarrow> int) \<Rightarrow> string list \<Rightarrow> event list \<times> js_error option" where
  "mainLoop_cycle exchanges now pairs =
     (case forPairs exchanges now pairs [] of (caught, emitted) \<Rightarrow> (emitted, caught))"

section \<open>Doubles\<close>

text \<open>
  A number of the program is a binary64 value: a literal denotes the double nearest to
  it, and \<^verbatim>\<open>-\<close> and \<^verbatim>\<open>/\<close> return the double nearest to the exact result, a tie
  going to the even significand. A finite double is the rational it stands for.
  \<open>pow2 e\<close> is the power of two with exponent \<open>e\<close>; \<open>binade x\<close> is the exponent
  \<open>e\<close> with \<open>pow2 e \<le> x < pow2 (e + 1)\<close>, for positive \<open>x\<close>.
\<close>

definition pow2 :: "int \<Rightarrow> rat" where
  "pow2 e = (if 0 \<le> e then 2 ^ nat e else 1 / 2 ^ nat (- e))"

definition round_half_even :: "rat \<Rightarrow> int" where
  "round_half_even y =
     (let f = \<lfloor>y\<rfloor>; d = y - of_int f
      in if d < 1 / 2 then f else if 1 / 2 < d then f + 1 else if even f then f else f + 1)"

function binade_up :: "rat \<Rightarrow> int" where
  "binade_up x = (if 2 \<le> x then binade_up (x / 2) + 1 else 0)"
  by pat_completeness auto
termination
proof (relation "measure (\<lambda>x. nat \<lfloor>x\<rfloor>)")
  show "wf (measure (\<lambda>x::rat. nat \<lfloor>x\<rfloor>))" by simp
next
  fix x :: rat
  assume x: "2 \<le> x"
  have "of_int \<lfloor>x / 2\<rfloor> \<le> x / 2" by (rule of_int_floor_le)
  then have "of_int (2 * \<lfloor>x / 2\<rfloor>) \<le> x" by simp
  then have "2 * \<lfloor>x / 2\<rfloor> \<le> \<lfloor>x\<rfloor>" by (simp only: le_floor_iff)
  moreover from x have "2 \<le> \<lfloor>x\<rfloor>" by (simp add: le_floor_iff)
  ultimately have "nat \<lfloor>x / 2\<rfloor> < nat \<lfloor>x\<rfloor>" by arith
  then show "(x / 2, x) \<in> measure (\<lambda>x. nat \<lfloor>x\<rfloor>)"
    by (simp only: in_measure)
qed

function binade_down :: "rat \<Rightarrow> int" where
  "binade_down x = (if 0 < x \<and> x < 1 then binade_down (2 * x) - 1 else 0)"
  by pat_completeness auto
termination
proof (relation "measure (\<lambda>x. nat \<lfloor>1 / x\<rfloor>)")
  show "wf (measure (\<lambda>x::rat. nat \<lfloor>1 / x\<rfloor>))" by simp
next
  fix x :: rat
  assume x: "0 < x \<and> x < 1"
  have "of_int \<lfloor>1 / (2 * x)\<rfloor> \<le> 1 / (2 * x)" by (rule of_int_floor_le)
  also have "\<dots> = (1 / x) / 2" by simp
  finally have "of_int (2 * \<lfloor>1 / (2 * x)\<rfloor>) \<le> 1 / x" by simp
  then have "2 * \<lfloor>1 / (2 * x)\<rfloor> \<le> \<lfloor>1 / x\<rfloor>" by (simp only: le_floor_iff)
  moreover from x have "1 \<le> \<lfloor>1 / x\<rfloor>" by (simp add: le_floor_iff)
  ultimately have "nat \<lfloor>1 / (2 * x)\<rfloor> < nat \<lfloor>1 / x\<rfloor>" by arith
  then show "(2 * x, x) \<in> measure (\<lambda>x. nat \<lfloor>1 / x\<rfloor>)"
    by (simp only: in_measure)
qed

declare binade_up.simps [simp del] binade_down.simps [simp del]

definition binade :: "rat \<Rightarrow> int" where
  "binade x = (if 1 \<le> x then binade_up x else binade_down x)"

text \<open>
  The spacing of the doubles around \<open>x\<close>: 52 binary places below the leading one, and
  no finer than the spacing of the subnormal numbers. \<open>round64\<close> is the nearest
  multiple of that spacing; \<open>to_double\<close> adds the overflow to an infinity.
\<close>

definition quantum :: "rat \<Rightarrow> rat" where
  "quantum x = pow2 (max (binade \<bar>x\<bar>) (- 1022) - 52)"

definition round64 :: "rat \<Rightarrow> rat" where
  "round64 x = of_int (round_half_even (x / quantum x)) * quantum x"

definition to_double :: "rat \<Rightarrow> jsnum" where
  "to_double x =
     (let r = round64 x
      in if pow2 1024 \<le> r then Infinity else if r \<le> - pow2 1024 then NegInfinity else Fin r)"

text \<open>
  \<^verbatim>\<open>a - b\<close> on two finite doubles, and \<^verbatim>\<open>x / b\<close> for a finite double \<open>b\<close>; with a
  zero divisor as in \<open>js_div\<close>.
\<close>

definition sub64 :: "rat \<Rightarrow> rat \<Rightarrow> jsnum" where
  "sub64 a b = to_double (a - b)"

fun div64 :: "jsnum \<Rightarrow> rat \<Rightarrow> jsnum" where
  "div64 (Fin a) b = (if b \<noteq> 0 then to_double (a / b) else js_div a b)"
| "div64 Infinity b = (if b < 0 then NegInfinity else Infinity)"
| "div64 NegInfinity b = (if b < 0 then Infinity else NegInfinity)"
| "div64 NaN b = NaN"

text \<open>
  \<^verbatim>\<open>(sellPrice - buyPrice) / buyPrice\<close> as \<^verbatim>\<open>executeArbitrage\<close> and \<^verbatim>\<open>mainLoop\<close>
  compute it on two doubles.
\<close>

definition spread64 :: "rat \<Rightarrow> rat \<Rightarrow> jsnum" where
  "spread64 buyPrice sellPrice = div64 (sub64 sellPrice buyPrice) buyPrice"

section \<open>Notions the statements use\<close>

text \<open>
  The valid quotes of a pair, in the order of \<^verbatim>\<open>Object.keys(exchanges)\<close>: what each
  exchange contributes to \<^verbatim>\<open>results\<close>, if anything.
\<close>

definition quote_from :: "exchanges \<Rightarrow> string \<Rightarrow> string \<Rightarrow> quote option" where
  "quote_from exchanges p ex_id =
     (case fetchPrice (map_of exchanges ex_id) p of
        Inl e \<Rightarrow> None
      | Inr price \<Rightarrow> valid_quote ex_id price)"

definition valid_quotes :: "exchanges \<Rightarrow> string \<Rightarrow> quote list" where
  "valid_quotes exchanges p = List.map_filter (quote_from exchanges p) (Object_keys exchanges)"

definition min_ask :: "quote list \<Rightarrow> rat" where
  "min_ask qs = Min (ask ` set qs)"

definition max_bid :: "quote list \<Rightarrow> rat" where
  "max_bid qs = Max (bid ` set qs)"

text \<open>The first quote, in the order of the list, with the lowest ask or the highest bid.\<close>

definition first_min_ask :: "quote list \<Rightarrow> quote option" where
  "first_min_ask qs = List.find (\<lambda>q. ask q = min_ask qs) qs"

definition first_max_bid :: "quote list \<Rightarrow> quote option" where
  "first_max_bid qs = List.find (\<lambda>q. bid q = max_bid qs) qs"

text \<open>
  The first quote, in the order of the list, among those of the highest bid that have
  the lowest ask found at that bid.
\<close>

definition first_max_bid_lowest_ask :: "quote list \<Rightarrow> quote option" where
  "first_max_bid_lowest_ask qs =
     List.find (\<lambda>q. bid q = max_bid qs \<and> ask q = min_ask (filter (\<lambda>q. bid q = max_bid qs) qs)) qs"

text \<open>The spread \<^verbatim>\<open>(bestSell.bid - bestBuy.ask) / bestBuy.ask\<close>.\<close>

definition spread_of :: "quote \<Rightarrow> quote \<Rightarrow> jsnum" where
  "spread_of buy sell = js_div (bid sell - ask buy) (ask buy)"

definition qualifies :: "'a best_quotes_scheme \<Rightarrow> bool" where
  "qualifies s \<longleftrightarrow>
     js_ge (spread_of (bestBuy s) (bestSell s)) MIN_ARBITRAGE_SPREAD \<and>
     exchange (bestBuy s) \<noteq> exchange (bestSell s)"

text \<open>The order placements and the withdrawal requests among the effects of an execution.\<close>

fun is_order :: "effect \<Rightarrow> bool" where
  "is_order (CreateMarketOrder ex_id symbol side amount) = True"
| "is_order _ = False"

fun is_withdrawal :: "effect \<Rightarrow> bool" where
  "is_withdrawal (Withdraw ex_id asset amount address) = True"
| "is_withdrawal _ = False"

definition orders_placed :: "effect list \<Rightarrow> effect list" where
  "orders_placed effects = filter is_order effects"

definition withdrawals_requested :: "effect list \<Rightarrow> effect list" where
  "withdrawals_requested effects = filter is_withdrawal effects"

text \<open>
  The market buy succeeds: the payload passes the spread check, the buy exchange
  \<open>buyEx\<close> is configured, its capability table \<open>h\<close> lists order creation, and the
  order call returns.
\<close>

definition buy_succeeds ::
  "exchanges \<Rightarrow> 'a best_quotes_scheme \<Rightarrow> adapter \<Rightarrow> (string \<Rightarrow> bool) \<Rightarrow> bool" where
  "buy_succeeds exchanges opp buyEx h \<longleftrightarrow>
     \<not> js_lt (spread_of (bestBuy opp) (bestSell opp)) MIN_ARBITRAGE_SPREAD \<and>
     map_of exchanges (exchange (bestBuy opp)) = Some buyEx \<and>
     has buyEx = Some h \<and> h ''createMarketOrder'' \<and>
     \<not> isl (createMarketOrder buyEx (pair opp) ''buy''
              (js_div TRADE_AMOUNT_USDT (ask (bestBuy opp))))"

definition can_create_orders :: "exchanges \<Rightarrow> string \<Rightarrow> bool" where
  "can_create_orders exchanges ex_id =
     (case map_of exchanges ex_id of
        None \<Rightarrow> False
      | Some ex \<Rightarrow> (case has ex of None \<Rightarrow> False | Some h \<Rightarrow> h ''createMarketOrder''))"

text \<open>
  An exchange client from which no price can be had for a pair: it is absent, it has no
  capability table or no ticker capability, or its ticker call throws.
\<close>

definition unavailable :: "adapter option \<Rightarrow> string \<Rightarrow> bool" where
  "unavailable client p =
     (case client of
        None \<Rightarrow> True
      | Some ex \<Rightarrow>
          (case has ex of
             None \<Rightarrow> True
           | Some h \<Rightarrow> \<not> h ''fetchTicker'' \<or> isl (fetchTicker ex p)))"

section \<open>Concrete clients, exchanges and payloads\<close>

text \<open>
  A client with every capability that quotes the same bid and ask for every pair and
  accepts every order and withdrawal; the same client with a ticker call that throws
  for one pair.
\<close>

definition quoting :: "rat \<Rightarrow> rat \<Rightarrow> adapter" where
  "quoting b a =
     \<lparr>has = Some (\<lambda>k. True),
      fetchTicker = (\<lambda>p. Inr \<lparr>ticker.bid = Some b, ticker.ask = Some a, last_field = Some b\<rparr>),
      createMarketOrder = (\<lambda>symbol side amount. Inr ''order-1''),
      withdraw = (\<lambda>asset amount address. Inr ''tx-1'')\<rparr>"

definition failing_on :: "string \<Rightarrow> adapter \<Rightarrow> adapter" where
  "failing_on p ex =
     ex\<lparr>fetchTicker := (\<lambda>q. if q = p then Inl (JsError ''request timed out'') else fetchTicker ex q)\<rparr>"

definition two_exchanges :: exchanges where
  "two_exchanges =
     [(''binance'', quoting 100 (1001 / 10)), (''bybit'', quoting (1005 / 10) (1006 / 10))]"

definition three_exchanges :: exchanges where
  "three_exchanges =
     [(''binance'', quoting 10 12), (''bybit'', quoting 10 11), (''okx'', quoting 9 11)]"

definition crossed_exchanges :: exchanges where
  "crossed_exchanges = [(''binance'', quoting 101 100), (''bybit'', quoting 99 102)]"

definition flaky_exchanges :: exchanges where
  "flaky_exchanges =
     [(''binance'', failing_on ''BTC/USDT'' (quoting 100 (1001 / 10))),
      (''bybit'', failing_on ''BTC/USDT'' (quoting (1005 / 10) (1006 / 10)))]"



definition binance_quote :: quote where
  "binance_quote = \<lparr>exchange = ''binance'', bid = 100, ask = 1001 / 10\<rparr>"

definition bybit_quote :: quote where
  "bybit_quote = \<lparr>exchange = ''bybit'', bid = 1005 / 10, ask = 1006 / 10\<rparr>"


definition stale_payload :: opportunity where
  "stale_payload =
     \<lparr>pair = ''BTC/USDT'', bestBuy = binance_quote,
      bestSell = \<lparr>exchange = ''bybit'', bid = 1002 / 10, ask = 1006 / 10\<rparr>,
      timestamp = 1700000000000, spread = Fin (4 / 1001)\<rparr>"

definition binance_only_payload :: opportunity where
  "binance_only_payload =
     \<lparr>pair = ''BTC/USDT'',
      bestBuy = \<lparr>exchange = ''binance'', bid = 99, ask = 100\<rparr>,
      bestSell = \<lparr>exchange = ''binance'', bid = 101, ask = 102\<rparr>,
      timestamp = 1700000000000, spread = Fin (1 / 100)\<rparr>"

definition kraken_only_payload :: opportunity where
  "kraken_only_payload =
     \<lparr>pair = ''BTC/USDT'',
      bestBuy = \<lparr>exchange = ''kraken'', bid = 99, ask = 100\<rparr>,
      bestSell = \<lparr>exchange = ''kraken'', bid = 101, ask = 102\<rparr>,
      timestamp = 1700000000000, spread = Fin (1 / 100)\<rparr>"


text \<open>
  Two answers of the runtime that the examples need, and undefined elsewhere: a plain
  object inherits \<^verbatim>\<open>constructor\<close>, the function \<^verbatim>\<open>Object\<close>, whose \<^verbatim>\<open>name\<close> is
  the string \<^verbatim>\<open>Object\<close>.
\<close>

definition constructor_name :: property_access where
  "constructor_name v k =
     (if v = Ref AddressBook \<and> k = ''constructor'' then Inr (Ref (Builtin ''Object''))
      else if v = Ref (Builtin ''Object'') \<and> k = ''name'' then Inr (Str ''Object'')
      else Inr Undefined)"

text \<open>
  A payload that names a property every object inherits as its sell exchange, for a
  pair whose base asset is a property of that function.
\<close>

definition constructor_payload :: opportunity where
  "constructor_payload =
     \<lparr>pair = ''name/USDT'', bestBuy = binance_quote,
      bestSell = \<lparr>exchange = ''constructor'', bid = 1005 / 10, ask = 1006 / 10\<rparr>,
      timestamp = 1700000000000, spread = Fin (4 / 1001)\<rparr>"

section \<open>The scan never throws\<close>

lemma try_catch_simps [simp]:
  "try_catch (Inl e) handler = handler e"
  "try_catch (Inr v) handler = Inr v"
  by (simp_all add: try_catch_def)

lemma fetchPrice_total: "\<exists>r. fetchPrice client p = Inr r"
  by (auto simp: fetchPrice_def try_catch_def split: option.splits sum.splits)

lemma scanLoop_collects:
  "scanLoop exchanges p ids results = Inr (results @ List.map_filter (quote_from exchanges p) ids)"
proof (induction ids arbitrary: results)
  case Nil
  then show ?case by (simp add: map_filter_simps)
next
  case (Cons i ids)
  obtain r where r: "fetchPrice (map_of exchanges i) p = Inr r"
    using fetchPrice_total by blast
  show ?case
    by (cases "valid_quote i r") (simp_all add: r Cons.IH quote_from_def map_filter_simps)
qed

section \<open>The two sorts\<close>

text \<open>Each comparator of \<^verbatim>\<open>scanPair\<close> orders by a key, so the sort is a stable sort by key.\<close>

lemma js_insert_ask: "js_insert (\<lambda>a b. ask a - ask b) x ys = insort_key ask x ys"
  by (induction ys) simp_all

lemma js_sort_ask: "js_sort (\<lambda>a b. ask a - ask b) xs = sort_key ask xs"
  by (induction xs) (simp_all add: js_sort_def js_insert_ask)

lemma js_insert_bid: "js_insert (\<lambda>a b. bid b - bid a) x ys = insort_key (\<lambda>q. - bid q) x ys"
  by (induction ys) simp_all

lemma js_sort_bid: "js_sort (\<lambda>a b. bid b - bid a) xs = sort_key (\<lambda>q. - bid q) xs"
  by (induction xs) (simp_all add: js_sort_def js_insert_bid)

lemma scanPair_unfold:
  "scanPair exchanges p =
     (let qs = valid_quotes exchanges p in
      if length qs < 2 then Inr None
      else Inr (Some \<lparr>pair = p,
                      bestBuy = hd (sort_key ask qs),
                      bestSell = hd (sort_key (\<lambda>q. - bid q) (sort_key ask qs)),
                      all = sort_key (\<lambda>q. - bid q) (sort_key ask qs)\<rparr>))"
  by (simp add: scanPair_def scanLoop_collects valid_quotes_def js_sort_ask js_sort_bid Let_def)

lemma scanPair_total: "\<exists>r. scanPair exchanges p = Inr r"
  by (simp add: scanPair_unfold Let_def)

lemma hd_sort_key_least:
  fixes f :: "'a \<Rightarrow> rat"
  assumes "xs \<noteq> []"
  shows "hd (sort_key f xs) \<in> set xs" and "\<forall>y \<in> set xs. f (hd (sort_key f xs)) \<le> f y"
proof -
  let ?ys = "sort_key f xs"
  from assms have ne: "?ys \<noteq> []"
    by (metis length_sort length_0_conv)
  then obtain z zs where ys: "?ys = z # zs"
    by (cases ?ys) auto
  have "set ?ys = set xs" by simp
  with ys show "hd (sort_key f xs) \<in> set xs" by auto
  have "sorted (map f ?ys)" by (rule sorted_sort_key)
  with ys have "\<forall>y \<in> set zs. f z \<le> f y" by simp
  with ys \<open>set ?ys = set xs\<close> show "\<forall>y \<in> set xs. f (hd (sort_key f xs)) \<le> f y"
    by (metis list.sel(1) order_refl set_ConsD)
qed

lemma hd_sort_key_Min:
  fixes f :: "'a \<Rightarrow> rat"
  assumes "xs \<noteq> []"
  shows "f (hd (sort_key f xs)) = Min (f ` set xs)"
proof (rule Min_eqI [symmetric])
  show "finite (f ` set xs)" by simp
  show "\<And>y. y \<in> f ` set xs \<Longrightarrow> f (hd (sort_key f xs)) \<le> y"
    using hd_sort_key_least(2) [OF assms, of f] by auto
  show "f (hd (sort_key f xs)) \<in> f ` set xs"
    using hd_sort_key_least(1) [OF assms, of f] by simp
qed

lemma find_filter_hd:
  "List.find P xs = (case filter P xs of [] \<Rightarrow> None | x # _ \<Rightarrow> Some x)"
  by (induction xs) simp_all

lemma find_filter_conj:
  "List.find Q (filter P xs) = List.find (\<lambda>x. P x \<and> Q x) xs"
  by (induction xs) simp_all

text \<open>Stability: the head of the sorted list is the first element of least key.\<close>

lemma hd_sort_key_first:
  fixes f :: "'a \<Rightarrow> rat"
  assumes "xs \<noteq> []"
  shows "List.find (\<lambda>y. f y = Min (f ` set xs)) xs = Some (hd (sort_key f xs))"
proof -
  let ?k = "Min (f ` set xs)"
  let ?ys = "sort_key f xs"
  from assms have "?ys \<noteq> []"
    by (metis length_sort length_0_conv)
  then obtain z zs where ys: "?ys = z # zs"
    by (cases ?ys) auto
  have fz: "f z = ?k"
    using hd_sort_key_Min [OF assms, of f] ys by simp
  have "filter (\<lambda>y. f y = ?k) xs = filter (\<lambda>y. f y = ?k) ?ys"
    by (simp add: sort_key_stable)
  also have "\<dots> = z # filter (\<lambda>y. f y = ?k) zs"
    using ys fz by simp
  finally show ?thesis
    by (simp add: find_filter_hd ys)
qed

lemma Max_as_Min:
  fixes f :: "'a \<Rightarrow> rat"
  assumes "xs \<noteq> []"
  shows "Min ((\<lambda>q. - f q) ` set xs) = - Max (f ` set xs)"
proof (rule Min_eqI)
  show "finite ((\<lambda>q. - f q) ` set xs)" by simp
  show "\<And>y. y \<in> (\<lambda>q. - f q) ` set xs \<Longrightarrow> - Max (f ` set xs) \<le> y"
    by auto
  have "Max (f ` set xs) \<in> f ` set xs"
    using assms by (intro Max_in) auto
  then show "- Max (f ` set xs) \<in> (\<lambda>q. - f q) ` set xs"
    by auto
qed

section \<open>Evaluation on the concrete exchanges\<close>

lemmas eval_scan =
  valid_quotes_def quote_from_def Object_keys_def fetchPrice_def valid_quote_def try_catch_def
  quoting_def failing_on_def map_filter_simps scanPair_def js_sort_def min_ask_def max_bid_def
  Let_def

lemma valid_quotes_two:
  "valid_quotes two_exchanges ''BTC/USDT'' = [binance_quote, bybit_quote]"
  by (simp add: eval_scan two_exchanges_def binance_quote_def bybit_quote_def)

lemma scanPair_two:
  "scanPair two_exchanges ''BTC/USDT'' =
     Inr (Some \<lparr>pair = ''BTC/USDT'', bestBuy = binance_quote, bestSell = bybit_quote,
                all = [bybit_quote, binance_quote]\<rparr>)"
  by (simp add: eval_scan two_exchanges_def binance_quote_def bybit_quote_def)

section \<open>Best buy and best sell\<close>

text \<open>
  Claim C1. When at least two quotes of a pair are valid (bid and ask both truthy),
  \<^verbatim>\<open>scanPair\<close> returns a snapshot whose \<^verbatim>\<open>bestBuy.ask\<close> is the lowest ask among the
  valid quotes and whose \<^verbatim>\<open>bestSell.bid\<close> is the highest bid among them; with fewer
  than two valid quotes it returns null.
\<close>

theorem scanPair_best:
  "(2 \<le> length (valid_quotes exchanges p) \<longrightarrow>
      (\<exists>s. scanPair exchanges p = Inr (Some s) \<and>
           ask (bestBuy s) = min_ask (valid_quotes exchanges p) \<and>
           bid (bestSell s) = max_bid (valid_quotes exchanges p))) \<and>
   (length (valid_quotes exchanges p) < 2 \<longrightarrow> scanPair exchanges p = Inr None)"
proof (intro conjI impI)
  assume two: "2 \<le> length (valid_quotes exchanges p)"
  let ?qs = "valid_quotes exchanges p"
  let ?qs1 = "sort_key ask ?qs"
  from two have ne: "?qs \<noteq> []" by auto
  then have ne1: "?qs1 \<noteq> []" by (metis length_sort length_0_conv)
  have "- bid (hd (sort_key (\<lambda>q. - bid q) ?qs1)) = Min ((\<lambda>q. - bid q) ` set ?qs1)"
    by (rule hd_sort_key_Min [OF ne1])
  also have "\<dots> = - Max (bid ` set ?qs)"
    using Max_as_Min [OF ne, of bid] by simp
  finally have sell: "bid (hd (sort_key (\<lambda>q. - bid q) ?qs1)) = max_bid ?qs"
    by (simp add: max_bid_def)
  have buy: "ask (hd ?qs1) = min_ask ?qs"
    using hd_sort_key_Min [OF ne, of ask] by (simp add: min_ask_def)
  from two buy sell
  show "\<exists>s. scanPair exchanges p = Inr (Some s) \<and>
           ask (bestBuy s) = min_ask ?qs \<and> bid (bestSell s) = max_bid ?qs"
    by (simp add: scanPair_unfold Let_def)
next
  assume "length (valid_quotes exchanges p) < 2"
  then show "scanPair exchanges p = Inr None"
    by (simp add: scanPair_unfold Let_def)
qed

text \<open>
  With the two exchanges quoting 100 / 100.1 and 100.5 / 100.6 the best ask is 100.1
  and the best bid 100.5; with one exchange alone there is no snapshot.
\<close>

theorem scanPair_best_witness:
  "2 \<le> length (valid_quotes two_exchanges ''BTC/USDT'') \<and>
   (\<exists>s. scanPair two_exchanges ''BTC/USDT'' = Inr (Some s) \<and>
        ask (bestBuy s) = 1001 / 10 \<and> bid (bestSell s) = 1005 / 10) \<and>
   length (valid_quotes [(''binance'', quoting 100 101)] ''BTC/USDT'') < 2 \<and>
   scanPair [(''binance'', quoting 100 101)] ''BTC/USDT'' = Inr None"
proof -
  have two: "2 \<le> length (valid_quotes two_exchanges ''BTC/USDT'')"
    by (simp add: valid_quotes_two)
  have one: "length (valid_quotes [(''binance'', quoting 100 101)] ''BTC/USDT'') < 2"
    by (simp add: eval_scan)
  have m: "min_ask (valid_quotes two_exchanges ''BTC/USDT'') = 1001 / 10"
    "max_bid (valid_quotes two_exchanges ''BTC/USDT'') = 1005 / 10"
    by (simp_all add: valid_quotes_two min_ask_def max_bid_def binance_quote_def bybit_quote_def)
  from scanPair_best [of two_exchanges "''BTC/USDT''"] two m
    scanPair_best [of "[(''binance'', quoting 100 101)]" "''BTC/USDT''"] one
  show ?thesis by simp
qed

section \<open>The detection cycle\<close>

text \<open>The pass over the pairs never ends in a throw, and it only adds to the events.\<close>

lemma forPairs_emitted:
  "forPairs exchanges now ps emitted = (None, emitted @ snd (forPairs exchanges now ps []))"
proof (induction ps arbitrary: emitted)
  case Nil
  show ?case by simp
next
  case (Cons p ps)
  obtain r where r: "scanPair exchanges p = Inr r"
    using scanPair_total by blast
  show ?case
  proof (cases r)
    case None
    with r Cons.IH [of emitted] show ?thesis by simp
  next
    case (Some s)
    show ?thesis
      using r Some
      by (simp add: Let_def Cons.IH [of "emitted @ _"] Cons.IH [of "[_]"] Cons.IH [of "[_, _]"])
  qed
qed

lemma forPairs_append:
  "forPairs exchanges now (ps @ qs) emitted =
     forPairs exchanges now qs (snd (forPairs exchanges now ps emitted))"
proof (induction ps arbitrary: emitted)
  case Nil
  show ?case by simp
next
  case (Cons p ps)
  obtain r where r: "scanPair exchanges p = Inr r"
    using scanPair_total by blast
  show ?case
    using r by (cases r) (simp_all add: Let_def Cons.IH)
qed

lemma forPairs_Cons:
  "snd (forPairs exchanges now (p # ps) []) =
     snd (forPairs exchanges now [p] []) @ snd (forPairs exchanges now ps [])"
proof -
  have "forPairs exchanges now ([p] @ ps) [] =
        forPairs exchanges now ps (snd (forPairs exchanges now [p] []))"
    by (rule forPairs_append)
  also have "\<dots> = (None, snd (forPairs exchanges now [p] []) @ snd (forPairs exchanges now ps []))"
    by (rule forPairs_emitted)
  finally show ?thesis by simp
qed

lemma forPairs_single:
  "snd (forPairs exchanges now [p] []) =
     (case scanPair exchanges p of
        Inl e \<Rightarrow> []
      | Inr None \<Rightarrow> []
      | Inr (Some s) \<Rightarrow>
          Ticker p (bestBuy s) (bestSell s) (spread_of (bestBuy s) (bestSell s)) #
          (if qualifies s
           then [OpportunityEvent
                   \<lparr>pair = p, bestBuy = bestBuy s, bestSell = bestSell s, timestamp = now p,
                    spread = spread_of (bestBuy s) (bestSell s)\<rparr>]
           else []))"
  by (simp add: Let_def qualifies_def spread_of_def split: sum.splits option.splits)

lemma mainLoop_cycle_events:
  "fst (mainLoop_cycle exchanges now pairs) = snd (forPairs exchanges now pairs [])"
  by (simp add: mainLoop_cycle_def split: prod.splits)

lemma opportunity_in_single:
  "OpportunityEvent opp \<in> set (snd (forPairs exchanges now [p] [])) \<longleftrightarrow>
     (\<exists>s. scanPair exchanges p = Inr (Some s) \<and> qualifies s \<and>
        opp = \<lparr>pair = p, bestBuy = bestBuy s, bestSell = bestSell s, timestamp = now p,
               spread = spread_of (bestBuy s) (bestSell s)\<rparr>)"
proof -
  obtain r where r: "scanPair exchanges p = Inr r"
    using scanPair_total by blast
  show ?thesis
    unfolding forPairs_single r by (cases r) auto
qed

lemma opportunity_in_forPairs:
  "OpportunityEvent opp \<in> set (snd (forPairs exchanges now ps [])) \<longleftrightarrow>
     (\<exists>p \<in> set ps. \<exists>s. scanPair exchanges p = Inr (Some s) \<and> qualifies s \<and>
        opp = \<lparr>pair = p, bestBuy = bestBuy s, bestSell = bestSell s, timestamp = now p,
               spread = spread_of (bestBuy s) (bestSell s)\<rparr>)"
proof (induction ps)
  case Nil
  show ?case by simp
next
  case (Cons p ps)
  have "OpportunityEvent opp \<in> set (snd (forPairs exchanges now (p # ps) [])) \<longleftrightarrow>
        OpportunityEvent opp \<in> set (snd (forPairs exchanges now [p] [])) \<or>
        OpportunityEvent opp \<in> set (snd (forPairs exchanges now ps []))"
    by (subst forPairs_Cons) simp
  then show ?case
    unfolding Cons.IH opportunity_in_single by auto
qed

lemma scanPair_crossed:
  "scanPair crossed_exchanges ''BTC/USDT'' =
     Inr (Some \<lparr>pair = ''BTC/USDT'',
                bestBuy = \<lparr>exchange = ''binance'', bid = 101, ask = 100\<rparr>,
                bestSell = \<lparr>exchange = ''binance'', bid = 101, ask = 100\<rparr>,
                all = [\<lparr>exchange = ''binance'', bid = 101, ask = 100\<rparr>,
                       \<lparr>exchange = ''bybit'', bid = 99, ask = 102\<rparr>]\<rparr>)"
  by (simp add: eval_scan crossed_exchanges_def)

text \<open>
  Claim C2. In a detection cycle an opportunity event is emitted for a pair if and only
  if the pair has a snapshot whose spread \<^verbatim>\<open>(bestSell.bid - bestBuy.ask) / bestBuy.ask\<close>
  is at least \<^verbatim>\<open>MIN_ARBITRAGE_SPREAD\<close> and whose best-buy exchange differs from its
  best-sell exchange; so none is emitted when the two are the same exchange, whatever
  the spread.
\<close>

theorem opportunity_emitted_iff:
  "(\<exists>opp. OpportunityEvent opp \<in> set (fst (mainLoop_cycle exchanges now pairs)) \<and> pair opp = p) \<longleftrightarrow>
   (p \<in> set pairs \<and>
    (\<exists>s. scanPair exchanges p = Inr (Some s) \<and>
         js_ge (spread_of (bestBuy s) (bestSell s)) MIN_ARBITRAGE_SPREAD \<and>
         exchange (bestBuy s) \<noteq> exchange (bestSell s)))"
proof
  assume "\<exists>opp. OpportunityEvent opp \<in> set (fst (mainLoop_cycle exchanges now pairs)) \<and> pair opp = p"
  then obtain opp where "OpportunityEvent opp \<in> set (snd (forPairs exchanges now pairs []))"
    and p: "pair opp = p"
    unfolding mainLoop_cycle_events by blast
  then obtain q s where "q \<in> set pairs" "scanPair exchanges q = Inr (Some s)" "qualifies s"
    and opp: "opp = \<lparr>pair = q, bestBuy = bestBuy s, bestSell = bestSell s, timestamp = now q,
                      spread = spread_of (bestBuy s) (bestSell s)\<rparr>"
    unfolding opportunity_in_forPairs by blast
  moreover from opp p have "q = p" by simp
  ultimately show "p \<in> set pairs \<and>
    (\<exists>s. scanPair exchanges p = Inr (Some s) \<and>
       js_ge (spread_of (bestBuy s) (bestSell s)) MIN_ARBITRAGE_SPREAD \<and>
       exchange (bestBuy s) \<noteq> exchange (bestSell s))"
    unfolding qualifies_def by blast
next
  assume "p \<in> set pairs \<and>
    (\<exists>s. scanPair exchanges p = Inr (Some s) \<and>
       js_ge (spread_of (bestBuy s) (bestSell s)) MIN_ARBITRAGE_SPREAD \<and>
       exchange (bestBuy s) \<noteq> exchange (bestSell s))"
  then obtain s where "p \<in> set pairs" "scanPair exchanges p = Inr (Some s)" "qualifies s"
    unfolding qualifies_def by blast
  then have "OpportunityEvent \<lparr>pair = p, bestBuy = bestBuy s, bestSell = bestSell s,
                               timestamp = now p, spread = spread_of (bestBuy s) (bestSell s)\<rparr>
             \<in> set (snd (forPairs exchanges now pairs []))"
    unfolding opportunity_in_forPairs by blast
  then show "\<exists>opp. OpportunityEvent opp \<in> set (fst (mainLoop_cycle exchanges now pairs)) \<and> pair opp = p"
    unfolding mainLoop_cycle_events by (intro exI conjI) (assumption, simp)
qed

text \<open>
  The two exchanges of the scenario give an opportunity for BTC/USDT (spread 0.4 percent,
  two exchanges). With a crossed book on one exchange the best buy and the best sell are
  both that exchange, the spread is 1 percent, and no opportunity is emitted.
\<close>

theorem opportunity_emitted_iff_witness:
  "(\<exists>opp. OpportunityEvent opp \<in> set (fst (mainLoop_cycle two_exchanges (\<lambda>p. 0) PAIRS)) \<and>
          pair opp = ''BTC/USDT'') \<and>
   js_ge (spread_of \<lparr>exchange = ''binance'', bid = 101, ask = 100\<rparr>
                    \<lparr>exchange = ''binance'', bid = 101, ask = 100\<rparr>) MIN_ARBITRAGE_SPREAD \<and>
   \<not> (\<exists>opp. OpportunityEvent opp \<in> set (fst (mainLoop_cycle crossed_exchanges (\<lambda>p. 0) PAIRS)) \<and>
            pair opp = ''BTC/USDT'')"
proof (intro conjI)
  have "js_ge (spread_of binance_quote bybit_quote) MIN_ARBITRAGE_SPREAD"
    by (simp add: spread_of_def js_div_def MIN_ARBITRAGE_SPREAD_def binance_quote_def bybit_quote_def)
  moreover have "exchange binance_quote \<noteq> exchange bybit_quote"
    by (simp add: binance_quote_def bybit_quote_def)
  moreover have "''BTC/USDT'' \<in> set PAIRS"
    by (simp add: PAIRS_def)
  ultimately show "\<exists>opp. OpportunityEvent opp \<in> set (fst (mainLoop_cycle two_exchanges (\<lambda>p. 0) PAIRS)) \<and>
          pair opp = ''BTC/USDT''"
    using opportunity_emitted_iff [of two_exchanges "\<lambda>p. 0" PAIRS "''BTC/USDT''"] scanPair_two
    by simp
  show "js_ge (spread_of \<lparr>exchange = ''binance'', bid = 101, ask = 100\<rparr>
                    \<lparr>exchange = ''binance'', bid = 101, ask = 100\<rparr>) MIN_ARBITRAGE_SPREAD"
    by (simp add: spread_of_def js_div_def MIN_ARBITRAGE_SPREAD_def)
  show "\<not> (\<exists>opp. OpportunityEvent opp \<in> set (fst (mainLoop_cycle crossed_exchanges (\<lambda>p. 0) PAIRS)) \<and>
            pair opp = ''BTC/USDT'')"
    using opportunity_emitted_iff [of crossed_exchanges "\<lambda>p. 0" PAIRS "''BTC/USDT''"] scanPair_crossed
    by simp
qed

text \<open>
  Claim C5. A throw while one pair is processed (a ticker call that throws) does not
  keep the other pairs of the cycle from being processed: whatever the exchange clients
  do, the handler of the cycle catches nothing, and the events of a cycle are the events
  of the pairs before, of the pair itself and of the pairs after it, each as if
  processed alone.
\<close>

theorem cycle_isolated:
  "mainLoop_cycle exchanges now (ps @ p # qs) =
     (fst (mainLoop_cycle exchanges now ps) @
      fst (mainLoop_cycle exchanges now [p]) @
      fst (mainLoop_cycle exchanges now qs), None)"
proof -
  have one: "forPairs exchanges now (p # qs) e =
             forPairs exchanges now qs (snd (forPairs exchanges now [p] e))" for e
    using forPairs_append [of exchanges now "[p]" qs e] by simp
  have "forPairs exchanges now (ps @ p # qs) [] =
        forPairs exchanges now qs
          (snd (forPairs exchanges now [p] (snd (forPairs exchanges now ps []))))"
    by (simp only: forPairs_append one)
  also have "\<dots> = (None, (snd (forPairs exchanges now ps []) @ snd (forPairs exchanges now [p] [])) @
                       snd (forPairs exchanges now qs []))"
    by (subst forPairs_emitted, subst forPairs_emitted [of _ _ "[p]"]) simp
  finally show ?thesis
    by (simp add: mainLoop_cycle_def split: prod.splits)
qed

text \<open>
  Both clients throw on BTC/USDT and quote ETH/USDT: the cycle over the two pairs emits
  nothing for the first and the ticker and the opportunity of the second.
\<close>

theorem cycle_isolated_witness:
  "mainLoop_cycle flaky_exchanges (\<lambda>p. 0) [''BTC/USDT'', ''ETH/USDT''] =
     ([Ticker ''ETH/USDT'' binance_quote bybit_quote (Fin (4 / 1001)),
       OpportunityEvent
         \<lparr>pair = ''ETH/USDT'', bestBuy = binance_quote, bestSell = bybit_quote,
          timestamp = 0, spread = Fin (4 / 1001)\<rparr>], None)"
proof -
  have btc: "scanPair flaky_exchanges ''BTC/USDT'' = Inr None"
    by (simp add: eval_scan flaky_exchanges_def)
  have eth: "scanPair flaky_exchanges ''ETH/USDT'' =
     Inr (Some \<lparr>pair = ''ETH/USDT'', bestBuy = binance_quote, bestSell = bybit_quote,
                all = [bybit_quote, binance_quote]\<rparr>)"
    by (simp add: eval_scan flaky_exchanges_def binance_quote_def bybit_quote_def)
  have sp: "spread_of binance_quote bybit_quote = Fin (4 / 1001)"
    by (simp add: spread_of_def js_div_def binance_quote_def bybit_quote_def)
  have q: "qualifies \<lparr>pair = ''ETH/USDT'', bestBuy = binance_quote, bestSell = bybit_quote,
                all = [bybit_quote, binance_quote]\<rparr>"
    by (simp add: qualifies_def sp MIN_ARBITRAGE_SPREAD_def) (simp add: binance_quote_def bybit_quote_def)
  have "fst (mainLoop_cycle flaky_exchanges (\<lambda>p. 0) []) = []"
    by (simp add: mainLoop_cycle_def)
  moreover have "fst (mainLoop_cycle flaky_exchanges (\<lambda>p. 0) [''BTC/USDT'']) = []"
    unfolding mainLoop_cycle_events forPairs_single by (simp add: btc)
  moreover have "fst (mainLoop_cycle flaky_exchanges (\<lambda>p. 0) [''ETH/USDT'']) =
     [Ticker ''ETH/USDT'' binance_quote bybit_quote (Fin (4 / 1001)),
       OpportunityEvent
         \<lparr>pair = ''ETH/USDT'', bestBuy = binance_quote, bestSell = bybit_quote,
          timestamp = 0, spread = Fin (4 / 1001)\<rparr>]"
    unfolding mainLoop_cycle_events forPairs_single by (simp add: eth q sp)
  ultimately show ?thesis
    using cycle_isolated [of flaky_exchanges "\<lambda>p. 0" "[''BTC/USDT'']" "''ETH/USDT''" "[]"]
    by simp
qed

section \<open>Execution\<close>

lemma js_ge_not_lt: "js_ge x y \<Longrightarrow> \<not> js_lt x y"
  by (cases x) auto

lemmas eval_exec =
  executeArbitrage_def spread_of_def js_div_def failure_def failure_err_def message_or_err_def
  destinationAddress_def js_get_def base_asset_def orders_placed_def withdrawals_requested_def
  buy_succeeds_def can_create_orders_def MIN_ARBITRAGE_SPREAD_def TRADE_AMOUNT_USDT_def
  quoting_def binance_quote_def bybit_quote_def Let_def

text \<open>
  Claim C3. A payload whose recomputed spread is strictly below
  \<^verbatim>\<open>MIN_ARBITRAGE_SPREAD\<close> is answered with \<^verbatim>\<open>{ ok: false, reason: 'spread too low' }\<close>,
  and the execution has had no effect: no order call, no withdrawal call, no event.
\<close>

theorem spread_too_low:
  assumes "js_lt (spread_of (bestBuy opp) (bestSell opp)) MIN_ARBITRAGE_SPREAD"
  shows "executeArbitrage exchanges inherited book opp =
           (\<lparr>ok = False, reason = Some ''spread too low'', err = None, note_text = None\<rparr>, [])"
  using assms by (simp add: executeArbitrage_def spread_of_def failure_def Let_def)

text \<open>Buying at 100.1 and selling at 100.2 is a spread of a tenth of a percent.\<close>

theorem spread_too_low_witness:
  "js_lt (spread_of (bestBuy stale_payload) (bestSell stale_payload)) MIN_ARBITRAGE_SPREAD \<and>
   executeArbitrage two_exchanges constructor_name withdrawAddresses stale_payload =
     (\<lparr>ok = False, reason = Some ''spread too low'', err = None, note_text = None\<rparr>, [])"
proof -
  have low: "js_lt (spread_of (bestBuy stale_payload) (bestSell stale_payload)) MIN_ARBITRAGE_SPREAD"
    by (simp add: stale_payload_def spread_of_def js_div_def MIN_ARBITRAGE_SPREAD_def
        binance_quote_def)
  from low spread_too_low [OF low, of two_exchanges constructor_name withdrawAddresses]
  show ?thesis by simp
qed

text \<open>
  When the buy has succeeded and the address lookup produces a value that is not
  truthy, the result is \<^verbatim>\<open>no destination address\<close>, the one order placed is the
  buy, and no withdrawal is requested.
\<close>

lemma falsy_destination:
  assumes "buy_succeeds exchanges opp buyEx h"
    and "destinationAddress inherited book (exchange (bestSell opp)) (base_asset (pair opp)) =
           Inr destination"
    and "\<not> truthy destination"
  shows "fst (executeArbitrage exchanges inherited book opp) =
           \<lparr>ok = False, reason = Some ''no destination address'', err = None, note_text = None\<rparr> \<and>
         orders_placed (snd (executeArbitrage exchanges inherited book opp)) =
           [CreateMarketOrder (exchange (bestBuy opp)) (pair opp) ''buy''
              (js_div TRADE_AMOUNT_USDT (ask (bestBuy opp)))] \<and>
         withdrawals_requested (snd (executeArbitrage exchanges inherited book opp)) = []"
  using assms
  by (auto simp: buy_succeeds_def executeArbitrage_def spread_of_def failure_def Let_def
      orders_placed_def withdrawals_requested_def split: sum.splits)

text \<open>
  An exchange id and an asset that the table has no entry for, and for which the
  runtime answers undefined, end in that result.
\<close>

lemma no_entry_nothing_inherited:
  assumes "book ex_id = None" and "inherited (Ref AddressBook) ex_id = Inr Undefined"
  shows "destinationAddress inherited book ex_id asset = Inr Undefined"
  using assms by (auto simp: destinationAddress_def js_get_def)



lemma buy_succeeds_constructor:
  "buy_succeeds two_exchanges constructor_payload (quoting 100 (1001 / 10)) (\<lambda>k. True)"
  by (simp add: constructor_payload_def two_exchanges_def eval_exec)

text \<open>
  Claim C4. When the market buy succeeds and the address table has no entry for the
  sell exchange and the base asset, the result is to be
  \<^verbatim>\<open>{ ok: false, reason: 'no destination address' }\<close>, with the buy as the one order and
  no withdrawal. The execution does otherwise where the sell exchange names a property
  that the table inherits. In a runtime in which a plain object inherits
  \<^verbatim>\<open>constructor\<close>, the function \<^verbatim>\<open>Object\<close>, whose \<^verbatim>\<open>name\<close> is \<^verbatim>\<open>'Object'\<close>,
  the table of the source, which has no entry at all, yields \<^verbatim>\<open>'Object'\<close> as the
  destination for the sell exchange \<^verbatim>\<open>constructor\<close> and the pair \<^verbatim>\<open>name/USDT\<close>:
  the buy is followed by a withdrawal to that value and the result is \<^verbatim>\<open>ok: true\<close>.
\<close>

theorem inherited_destination:
  assumes "inherited (Ref AddressBook) ''constructor'' = Inr (Ref (Builtin ''Object''))"
    and "inherited (Ref (Builtin ''Object'')) ''name'' = Inr (Str ''Object'')"
  shows "buy_succeeds two_exchanges constructor_payload (quoting 100 (1001 / 10)) (\<lambda>k. True) \<and>
         withdrawAddresses (exchange (bestSell constructor_payload)) = None \<and>
         executeArbitrage two_exchanges inherited withdrawAddresses constructor_payload =
           (\<lparr>ok = True, reason = None, err = None, note_text = Some awaiting_deposit_note\<rparr>,
            [CreateMarketOrder ''binance'' ''name/USDT'' ''buy'' (Fin (100 / 1001)),
             Emit (Log (Bought (Fin (100 / 1001)) ''name'' ''binance'' (1001 / 10))),
             Withdraw ''binance'' ''name'' (Fin (100 / 1001)) (Str ''Object''),
             Emit (Log (WithdrawRequested ''binance'' ''tx-1'')),
             Emit (Log (WaitingForDeposit ''constructor''))])"
proof (intro conjI)
  show "buy_succeeds two_exchanges constructor_payload (quoting 100 (1001 / 10)) (\<lambda>k. True)"
    by (rule buy_succeeds_constructor)
  show "withdrawAddresses (exchange (bestSell constructor_payload)) = None"
    by (simp add: withdrawAddresses_def)
  have "destinationAddress inherited withdrawAddresses ''constructor'' ''name'' = Inr (Str ''Object'')"
    using assms by (simp add: destinationAddress_def js_get_def withdrawAddresses_def)
  then show "executeArbitrage two_exchanges inherited withdrawAddresses constructor_payload =
           (\<lparr>ok = True, reason = None, err = None, note_text = Some awaiting_deposit_note\<rparr>,
            [CreateMarketOrder ''binance'' ''name/USDT'' ''buy'' (Fin (100 / 1001)),
             Emit (Log (Bought (Fin (100 / 1001)) ''name'' ''binance'' (1001 / 10))),
             Withdraw ''binance'' ''name'' (Fin (100 / 1001)) (Str ''Object''),
             Emit (Log (WithdrawRequested ''binance'' ''tx-1'')),
             Emit (Log (WaitingForDeposit ''constructor''))])"
    by (simp add: executeArbitrage_def constructor_payload_def two_exchanges_def spread_of_def
        js_div_def base_asset_def MIN_ARBITRAGE_SPREAD_def TRADE_AMOUNT_USDT_def quoting_def
        binance_quote_def Let_def)
qed

theorem inherited_destination_witness:
  "constructor_name (Ref AddressBook) ''constructor'' = Inr (Ref (Builtin ''Object'')) \<and>
   constructor_name (Ref (Builtin ''Object'')) ''name'' = Inr (Str ''Object'') \<and>
   withdrawAddresses ''constructor'' = None \<and>
   fst (executeArbitrage two_exchanges constructor_name withdrawAddresses constructor_payload) =
     \<lparr>ok = True, reason = None, err = None, note_text = Some awaiting_deposit_note\<rparr> \<and>
   withdrawals_requested
     (snd (executeArbitrage two_exchanges constructor_name withdrawAddresses constructor_payload)) =
     [Withdraw ''binance'' ''name'' (Fin (100 / 1001)) (Str ''Object'')]"
proof -
  have c: "constructor_name (Ref AddressBook) ''constructor'' = Inr (Ref (Builtin ''Object''))"
    by (simp add: constructor_name_def)
  have n: "constructor_name (Ref (Builtin ''Object'')) ''name'' = Inr (Str ''Object'')"
    by (simp add: constructor_name_def)
  have "exchange (bestSell constructor_payload) = ''constructor''"
    by (simp add: constructor_payload_def)
  with inherited_destination [OF c n] c n show ?thesis
    by (simp add: withdrawals_requested_def)
qed




text \<open>
  Claim C9, as it is stated: every payload that names one exchange as best buy and best
  sell, with a spread of at least \<^verbatim>\<open>MIN_ARBITRAGE_SPREAD\<close>, has a buy order placed on
  that exchange. It fails for a payload that names an exchange the server has no client
  for: the spread check is passed, and the execution ends before any order.
\<close>

theorem same_exchange_counterexample:
  "exchange (bestBuy kraken_only_payload) = exchange (bestSell kraken_only_payload) \<and>
   js_ge (spread_of (bestBuy kraken_only_payload) (bestSell kraken_only_payload))
     MIN_ARBITRAGE_SPREAD \<and>
   executeArbitrage two_exchanges constructor_name withdrawAddresses kraken_only_payload =
     (\<lparr>ok = False, reason = Some ''buy exchange cannot create orders via API'', err = None,
       note_text = None\<rparr>, [])"
  by (simp add: kraken_only_payload_def two_exchanges_def eval_exec)

text \<open>
  Claim C9, amended. The check at the start of an execution is on the spread alone: a
  payload that names one exchange as best buy and best sell, with a spread of at least
  \<^verbatim>\<open>MIN_ARBITRAGE_SPREAD\<close>, is never answered with \<^verbatim>\<open>spread too low\<close>, and when
  the server has a client for that exchange with the order capability, the execution
  places one market buy, on that exchange.
\<close>

theorem same_exchange_not_revalidated:
  assumes "exchange (bestBuy opp) = exchange (bestSell opp)"
    and "js_ge (spread_of (bestBuy opp) (bestSell opp)) MIN_ARBITRAGE_SPREAD"
  shows "reason (fst (executeArbitrage exchanges inherited book opp)) \<noteq> Some ''spread too low'' \<and>
         (can_create_orders exchanges (exchange (bestBuy opp)) \<longrightarrow>
            orders_placed (snd (executeArbitrage exchanges inherited book opp)) =
              [CreateMarketOrder (exchange (bestSell opp)) (pair opp) ''buy''
                 (js_div TRADE_AMOUNT_USDT (ask (bestBuy opp)))])"
proof -
  from assms(2) have "\<not> js_lt (spread_of (bestBuy opp) (bestSell opp)) MIN_ARBITRAGE_SPREAD"
    by (rule js_ge_not_lt)
  with assms(1) show ?thesis
    by (auto simp: executeArbitrage_def spread_of_def failure_def failure_err_def Let_def
        orders_placed_def can_create_orders_def split: option.splits sum.splits)
qed

theorem same_exchange_not_revalidated_witness:
  "exchange (bestBuy binance_only_payload) = exchange (bestSell binance_only_payload) \<and>
   js_ge (spread_of (bestBuy binance_only_payload) (bestSell binance_only_payload))
     MIN_ARBITRAGE_SPREAD \<and>
   can_create_orders two_exchanges ''binance'' \<and>
   reason (fst (executeArbitrage two_exchanges constructor_name withdrawAddresses
                  binance_only_payload)) \<noteq>
     Some ''spread too low'' \<and>
   orders_placed (snd (executeArbitrage two_exchanges constructor_name withdrawAddresses
                         binance_only_payload)) =
     [CreateMarketOrder ''binance'' ''BTC/USDT'' ''buy'' (Fin (1 / 10))]"
proof -
  have same: "exchange (bestBuy binance_only_payload) = exchange (bestSell binance_only_payload)"
    by (simp add: binance_only_payload_def)
  have enough: "js_ge (spread_of (bestBuy binance_only_payload) (bestSell binance_only_payload))
     MIN_ARBITRAGE_SPREAD"
    by (simp add: binance_only_payload_def spread_of_def js_div_def MIN_ARBITRAGE_SPREAD_def)
  have can: "can_create_orders two_exchanges ''binance''"
    by (simp add: can_create_orders_def two_exchanges_def quoting_def)
  have facts: "exchange (bestBuy binance_only_payload) = ''binance''"
    "exchange (bestSell binance_only_payload) = ''binance''"
    "pair binance_only_payload = ''BTC/USDT''"
    "js_div TRADE_AMOUNT_USDT (ask (bestBuy binance_only_payload)) = Fin (1 / 10)"
    by (simp_all add: binance_only_payload_def js_div_def TRADE_AMOUNT_USDT_def)
  from same_exchange_not_revalidated
         [OF same enough, of two_exchanges constructor_name withdrawAddresses]
    same enough can facts
  show ?thesis by simp
qed

section \<open>Ties\<close>

lemma valid_quotes_three:
  "valid_quotes three_exchanges ''BTC/USDT'' =
     [\<lparr>exchange = ''binance'', bid = 10, ask = 12\<rparr>,
      \<lparr>exchange = ''bybit'', bid = 10, ask = 11\<rparr>,
      \<lparr>exchange = ''okx'', bid = 9, ask = 11\<rparr>]"
  by (simp add: eval_scan three_exchanges_def)

lemma scanPair_three:
  "scanPair three_exchanges ''BTC/USDT'' =
     Inr (Some \<lparr>pair = ''BTC/USDT'',
                bestBuy = \<lparr>exchange = ''bybit'', bid = 10, ask = 11\<rparr>,
                bestSell = \<lparr>exchange = ''bybit'', bid = 10, ask = 11\<rparr>,
                all = [\<lparr>exchange = ''bybit'', bid = 10, ask = 11\<rparr>,
                       \<lparr>exchange = ''binance'', bid = 10, ask = 12\<rparr>,
                       \<lparr>exchange = ''okx'', bid = 9, ask = 11\<rparr>]\<rparr>)"
  by (simp add: eval_scan three_exchanges_def)

text \<open>
  Claim C7, as it is stated: among the quotes that tie for the highest bid,
  \<^verbatim>\<open>bestSell\<close> is the one met first in the order of the exchanges. It fails where
  the first sort has moved a later exchange to the front: binance and bybit both bid 10,
  binance comes first in the order of the exchanges, and \<^verbatim>\<open>bestSell\<close> is bybit, whose
  ask is lower.
\<close>

theorem tie_break_counterexample:
  "first_max_bid (valid_quotes three_exchanges ''BTC/USDT'') =
     Some \<lparr>exchange = ''binance'', bid = 10, ask = 12\<rparr> \<and>
   scanPair three_exchanges ''BTC/USDT'' =
     Inr (Some \<lparr>pair = ''BTC/USDT'',
                bestBuy = \<lparr>exchange = ''bybit'', bid = 10, ask = 11\<rparr>,
                bestSell = \<lparr>exchange = ''bybit'', bid = 10, ask = 11\<rparr>,
                all = [\<lparr>exchange = ''bybit'', bid = 10, ask = 11\<rparr>,
                       \<lparr>exchange = ''binance'', bid = 10, ask = 12\<rparr>,
                       \<lparr>exchange = ''okx'', bid = 9, ask = 11\<rparr>]\<rparr>)"
  by (simp add: valid_quotes_three scanPair_three first_max_bid_def max_bid_def)

text \<open>
  Claim C7, amended. The selection is determined by the quotes and their order:
  \<^verbatim>\<open>bestBuy\<close> is the first quote, in the order of the exchanges, among those of the
  lowest ask; \<^verbatim>\<open>bestSell\<close> is, among the quotes of the highest bid, the one of the
  lowest ask, and the first of these in the order of the exchanges.
\<close>

theorem tie_break:
  assumes "scanPair exchanges p = Inr (Some s)"
  shows "first_min_ask (valid_quotes exchanges p) = Some (bestBuy s) \<and>
         first_max_bid_lowest_ask (valid_quotes exchanges p) = Some (bestSell s)"
proof -
  let ?qs = "valid_quotes exchanges p"
  let ?qs1 = "sort_key ask ?qs"
  let ?nb = "\<lambda>q::quote. - bid q"
  let ?P = "\<lambda>q::quote. bid q = max_bid ?qs"
  from assms have len: "\<not> length ?qs < 2"
    by (auto simp: scanPair_unfold Let_def split: if_splits)
  then have ne: "?qs \<noteq> []" by auto
  then have ne1: "?qs1 \<noteq> []" by (metis length_sort length_0_conv)
  from assms len have buy: "bestBuy s = hd ?qs1"
    and sell: "bestSell s = hd (sort_key ?nb ?qs1)"
    by (auto simp: scanPair_unfold Let_def)
  have first_buy: "first_min_ask ?qs = Some (bestBuy s)"
    unfolding first_min_ask_def min_ask_def buy by (rule hd_sort_key_first [OF ne])
  have "Min (?nb ` set ?qs1) = - max_bid ?qs"
    using Max_as_Min [OF ne, of bid] by (simp add: max_bid_def)
  with hd_sort_key_first [OF ne1, of ?nb]
  have "List.find ?P ?qs1 = Some (bestSell s)"
    by (simp add: sell)
  then have hd1: "filter ?P ?qs1 \<noteq> []" "hd (filter ?P ?qs1) = bestSell s"
    by (auto simp: find_filter_hd split: list.splits)
  have fs: "filter ?P ?qs1 = sort_key ask (filter ?P ?qs)"
    by (rule filter_sort)
  with hd1(1) have neF: "filter ?P ?qs \<noteq> []"
    by auto
  from hd_sort_key_first [OF neF, of ask] hd1(2) fs
  have "List.find (\<lambda>q. ask q = min_ask (filter ?P ?qs)) (filter ?P ?qs) = Some (bestSell s)"
    by (simp add: min_ask_def)
  then have "first_max_bid_lowest_ask ?qs = Some (bestSell s)"
    by (simp add: find_filter_conj first_max_bid_lowest_ask_def)
  with first_buy show ?thesis by simp
qed

text \<open>
  On the same three exchanges bybit and okx tie for the lowest ask and bybit, the
  earlier of the two, is \<^verbatim>\<open>bestBuy\<close>; binance and bybit tie for the highest bid and
  bybit, of the lower ask, is \<^verbatim>\<open>bestSell\<close>.
\<close>

theorem tie_break_witness:
  "valid_quotes three_exchanges ''BTC/USDT'' =
     [\<lparr>exchange = ''binance'', bid = 10, ask = 12\<rparr>,
      \<lparr>exchange = ''bybit'', bid = 10, ask = 11\<rparr>,
      \<lparr>exchange = ''okx'', bid = 9, ask = 11\<rparr>] \<and>
   first_min_ask (valid_quotes three_exchanges ''BTC/USDT'') =
     Some \<lparr>exchange = ''bybit'', bid = 10, ask = 11\<rparr> \<and>
   first_max_bid_lowest_ask (valid_quotes three_exchanges ''BTC/USDT'') =
     Some \<lparr>exchange = ''bybit'', bid = 10, ask = 11\<rparr>"
  using tie_break [OF scanPair_three] valid_quotes_three by simp

section \<open>Totality of the price fetch\<close>

text \<open>
  Claim C10. \<^verbatim>\<open>fetchPrice\<close> always returns and never throws; it returns null when
  the exchange client is absent, lacks the ticker capability, or throws in its ticker
  call. So \<^verbatim>\<open>scanPair\<close> does not throw either: it returns null or a snapshot.
\<close>

theorem fetchPrice_never_throws:
  "(\<exists>r. fetchPrice client p = Inr r) \<and>
   (unavailable client p \<longrightarrow> fetchPrice client p = Inr None) \<and>
   (scanPair exchanges p = Inr None \<or> (\<exists>s. scanPair exchanges p = Inr (Some s)))"
proof (intro conjI impI)
  show "\<exists>r. fetchPrice client p = Inr r"
    by (rule fetchPrice_total)
  show "fetchPrice client p = Inr None" if "unavailable client p"
    using that
    by (auto simp: unavailable_def fetchPrice_def split: option.splits sum.splits)
  show "scanPair exchanges p = Inr None \<or> (\<exists>s. scanPair exchanges p = Inr (Some s))"
    by (simp add: scanPair_unfold Let_def)
qed

text \<open>
  No client; a client without capability table; a client without the ticker
  capability; a client whose ticker call throws for the pair.
\<close>

theorem fetchPrice_never_throws_witness:
  "unavailable None ''BTC/USDT'' \<and>
   fetchPrice None ''BTC/USDT'' = Inr None \<and>
   unavailable (Some ((quoting 100 101)\<lparr>has := None\<rparr>)) ''BTC/USDT'' \<and>
   fetchPrice (Some ((quoting 100 101)\<lparr>has := None\<rparr>)) ''BTC/USDT'' = Inr None \<and>
   unavailable (Some ((quoting 100 101)\<lparr>has := Some (\<lambda>k. k \<noteq> ''fetchTicker'')\<rparr>)) ''BTC/USDT'' \<and>
   fetchPrice (Some ((quoting 100 101)\<lparr>has := Some (\<lambda>k. k \<noteq> ''fetchTicker'')\<rparr>)) ''BTC/USDT'' =
     Inr None \<and>
   unavailable (Some (failing_on ''BTC/USDT'' (quoting 100 101))) ''BTC/USDT'' \<and>
   fetchPrice (Some (failing_on ''BTC/USDT'' (quoting 100 101))) ''BTC/USDT'' = Inr None \<and>
   scanPair flaky_exchanges ''BTC/USDT'' = Inr None"
proof -
  have 1: "unavailable None ''BTC/USDT''"
    by (simp add: unavailable_def)
  have 2: "unavailable (Some ((quoting 100 101)\<lparr>has := None\<rparr>)) ''BTC/USDT''"
    by (simp add: unavailable_def)
  have 3: "unavailable (Some ((quoting 100 101)\<lparr>has := Some (\<lambda>k. k \<noteq> ''fetchTicker'')\<rparr>))
             ''BTC/USDT''"
    by (simp add: unavailable_def)
  have 4: "unavailable (Some (failing_on ''BTC/USDT'' (quoting 100 101))) ''BTC/USDT''"
    by (simp add: unavailable_def failing_on_def quoting_def)
  have 5: "scanPair flaky_exchanges ''BTC/USDT'' = Inr None"
    by (simp add: eval_scan flaky_exchanges_def)
  from 1 2 3 4 5
    fetchPrice_never_throws [of None "''BTC/USDT''"]
    fetchPrice_never_throws [of "Some ((quoting 100 101)\<lparr>has := None\<rparr>)" "''BTC/USDT''"]
    fetchPrice_never_throws
      [of "Some ((quoting 100 101)\<lparr>has := Some (\<lambda>k. k \<noteq> ''fetchTicker'')\<rparr>)" "''BTC/USDT''"]
    fetchPrice_never_throws [of "Some (failing_on ''BTC/USDT'' (quoting 100 101))" "''BTC/USDT''"]
  show ?thesis by simp
qed

section \<open>The spread on doubles\<close>

text \<open>
  The rounding is to a nearest double: \<open>binade\<close> finds the binade of a positive
  number, and \<open>round64\<close> moves a number by at most half the spacing of the doubles
  around it.
\<close>

lemma pow2_pos: "0 < pow2 e"
  by (simp add: pow2_def)

lemma pow2_Suc: "pow2 (e + 1) = 2 * pow2 e"
proof (cases "0 \<le> e")
  case True
  then show ?thesis by (simp add: pow2_def nat_add_distrib)
next
  case False
  then obtain n where n: "nat (- e) = Suc n"
    by (cases "nat (- e)") auto
  then have m: "nat (- (e + 1)) = n" by arith
  from n have z: "0 \<le> e + 1 \<longleftrightarrow> n = 0" by arith
  show ?thesis
    using False n m z by (auto simp: pow2_def)
qed

lemma binade_up_bounds:
  "1 \<le> x \<Longrightarrow> 0 \<le> binade_up x \<and> pow2 (binade_up x) \<le> x \<and> x < pow2 (binade_up x + 1)"
proof (induction x rule: binade_up.induct)
  case (1 x)
  show ?case
  proof (cases "2 \<le> x")
    case True
    let ?b = "binade_up (x / 2)"
    from True "1.IH" have ih: "0 \<le> ?b" "pow2 ?b \<le> x / 2" "x / 2 < pow2 (?b + 1)"
      by simp_all
    have eq: "binade_up x = ?b + 1"
      using True by (subst binade_up.simps) simp
    have "pow2 (?b + 1) = 2 * pow2 ?b" "pow2 (?b + 1 + 1) = 2 * pow2 (?b + 1)"
      by (rule pow2_Suc)+
    with ih show ?thesis
      unfolding eq by linarith
  next
    case False
    then have "binade_up x = 0"
      by (subst binade_up.simps) simp
    with False "1.prems" show ?thesis
      by (simp add: pow2_def)
  qed
qed

lemma binade_down_bounds:
  "0 < x \<Longrightarrow> x < 1 \<Longrightarrow> pow2 (binade_down x) \<le> x \<and> x < pow2 (binade_down x + 1)"
proof (induction x rule: binade_down.induct)
  case (1 x)
  let ?b = "binade_down (2 * x)"
  have eq: "binade_down x = ?b - 1"
    using "1.prems" by (subst binade_down.simps) simp
  have p: "pow2 ?b = 2 * pow2 (?b - 1)"
    using pow2_Suc [of "?b - 1"] by simp
  show ?case
  proof (cases "2 * x < 1")
    case True
    with "1.IH" "1.prems" have "pow2 ?b \<le> 2 * x" "2 * x < pow2 (?b + 1)"
      by simp_all
    with p pow2_Suc [of ?b] show ?thesis
      unfolding eq by simp
  next
    case False
    then have "?b = 0"
      by (subst binade_down.simps) simp
    with False "1.prems" show ?thesis
      unfolding eq by (simp add: pow2_def)
  qed
qed

lemma binade_bounds:
  assumes "0 < x"
  shows "pow2 (binade x) \<le> x \<and> x < pow2 (binade x + 1)"
  using assms binade_up_bounds [of x] binade_down_bounds [of x]
  by (cases "1 \<le> x") (simp_all add: binade_def)

lemma round_half_even_nearest: "\<bar>of_int (round_half_even y) - y\<bar> \<le> 1 / 2"
proof -
  let ?f = "\<lfloor>y\<rfloor>"
  have f: "of_int ?f \<le> y" "y < of_int ?f + 1"
    by linarith+
  consider "y - of_int ?f < 1 / 2" | "1 / 2 < y - of_int ?f" | "y - of_int ?f = 1 / 2"
    by linarith
  then show ?thesis
  proof cases
    case 1
    then have "round_half_even y = ?f" by (simp add: round_half_even_def Let_def)
    with 1 f show ?thesis by simp
  next
    case 2
    then have "round_half_even y = ?f + 1" by (simp add: round_half_even_def Let_def)
    with 2 f show ?thesis by simp
  next
    case 3
    then have "round_half_even y = ?f \<or> round_half_even y = ?f + 1"
      by (simp add: round_half_even_def Let_def)
    with 3 show ?thesis by auto
  qed
qed

lemma quantum_pos: "0 < quantum x"
  by (simp add: quantum_def pow2_pos)

lemma round64_nearest: "\<bar>round64 x - x\<bar> \<le> quantum x / 2"
proof -
  let ?q = "quantum x"
  let ?n = "of_int (round_half_even (x / ?q)) :: rat"
  have q: "0 < ?q" by (rule quantum_pos)
  then have "round64 x - x = (?n - x / ?q) * ?q"
    by (simp add: round64_def left_diff_distrib)
  then have "\<bar>round64 x - x\<bar> = \<bar>?n - x / ?q\<bar> * ?q"
    using q by (simp add: abs_mult)
  also have "\<dots> \<le> (1 / 2) * ?q"
    using round_half_even_nearest [of "x / ?q"] q
    by (intro mult_right_mono) simp_all
  finally show ?thesis by simp
qed

lemma floor_rat_numeral:
  "\<lfloor>(numeral a :: rat) / numeral b\<rfloor> = numeral a div numeral b"
  using floor_divide_of_int_eq [of "numeral a" "numeral b", where ?'a = rat] by simp

lemmas eval64 =
  floor_rat_numeral binade_def binade_up.simps binade_down.simps quantum_def round64_def
  round_half_even_def pow2_def to_double_def sub64_def spread64_def Let_def

text \<open>The literals \<^verbatim>\<open>100\<close>, \<^verbatim>\<open>100.3\<close>, \<^verbatim>\<open>0.003\<close> and \<^verbatim>\<open>0.002\<close> as doubles.\<close>

lemma double_100: "round64 100 = 100"
  by (simp add: eval64)

lemma double_100_3: "round64 (1003 / 10) = 7057985041019699 / 70368744177664"
  by (simp add: eval64)

lemma double_0_003: "to_double (3 / 1000) = Fin (3458764513820541 / 1152921504606846976)"
  by (simp add: eval64)

lemma double_0_002: "round64 MIN_ARBITRAGE_SPREAD = 1152921504606847 / 576460752303423488"
  by (simp add: MIN_ARBITRAGE_SPREAD_def eval64)

lemma spread64_scenario:
  "spread64 100 (7057985041019699 / 70368744177664) =
     Fin (864691128455127 / 288230376151711744)"
proof -
  have "sub64 (7057985041019699 / 70368744177664) 100 = Fin (21110623253299 / 70368744177664)"
    by (simp add: eval64)
  moreover have "to_double (21110623253299 / 70368744177664 / 100) =
                 Fin (864691128455127 / 288230376151711744)"
    by (simp add: eval64)
  ultimately show ?thesis
    by (simp add: spread64_def)
qed

text \<open>
  Claim C8, as it is stated: for \<^verbatim>\<open>bestBuy.ask = 100\<close> and \<^verbatim>\<open>bestSell.bid = 100.3\<close>
  the computed spread is exactly 0.003. The program computes on doubles: the
  difference is 0.29999999999999716 and the quotient 0.0029999999999999714, which is
  neither the number 0.003 nor the double that the literal \<^verbatim>\<open>0.003\<close> denotes.
\<close>

theorem spread_exact_counterexample:
  "spread64 100 (round64 (1003 / 10)) = Fin (864691128455127 / 288230376151711744) \<and>
   to_double (3 / 1000) = Fin (3458764513820541 / 1152921504606846976) \<and>
   spread64 100 (round64 (1003 / 10)) \<noteq> to_double (3 / 1000) \<and>
   spread64 100 (round64 (1003 / 10)) \<noteq> Fin (3 / 1000)"
  by (simp add: double_100_3 double_0_003 spread64_scenario)

text \<open>
  Claim C8, amended. For \<^verbatim>\<open>bestBuy.ask = 100\<close> and \<^verbatim>\<open>bestSell.bid = 100.3\<close> the
  computed spread is the double 864691128455127 / 2^58, that is 0.0029999999999999714;
  it is within 10^-16 of 0.003, and it is at least the double of
  \<^verbatim>\<open>MIN_ARBITRAGE_SPREAD = 0.002\<close>, so the input passes the threshold of an
  opportunity.
\<close>

theorem spread_of_scenario:
  "spread64 100 (round64 (1003 / 10)) = Fin (864691128455127 / 2 ^ 58) \<and>
   \<bar>864691128455127 / 2 ^ 58 - 3 / 1000\<bar> < (1 / 10 ^ 16 :: rat) \<and>
   js_ge (spread64 100 (round64 (1003 / 10))) (round64 MIN_ARBITRAGE_SPREAD)"
  by (simp add: double_100_3 double_0_002 spread64_scenario)

end
